theory Spec2Isabelle
  imports Main
begin

section \<open>Data of the two services\<close>

text \<open>
  The types of the two client libraries are not part of this repository; the records below
  keep the fields the program reads or writes. A Go pointer field is an \<open>option\<close>
  (\<open>None\<close> is \<open>nil\<close>), a Go \<open>string\<close> is a byte sequence and so a \<open>string\<close>
  here, \<open>len\<close> is \<open>length\<close>. The library's \<open>time.Time\<close> is the type parameter
  \<open>'t\<close>.
\<close>

record github_Label =
  URL :: "string option"
  Name :: "string option"
  Color :: "string option"

record github_User =
  Login :: "string option"

record 't github_Issue =
  Number :: "int option"
  Title :: "string option"
  HTMLURL :: "string option"
  CreatedAt :: "'t option"
  Body :: "string option"
  Labels :: "github_Label list"

record 't github_IssueComment =
  HTMLURL :: "string option"
  CreatedAt :: "'t option"
  User :: "github_User option"
  Body :: "string option"

record pivotal_Label =
  Name :: string

datatype pivotal_StoryType = StoryTypeFeature

datatype pivotal_StoryState = StoryStateUnscheduled

record pivotal_StoryRequest =
  Name :: string
  Description :: string
  Labels :: "pivotal_Label list option"
  Type :: pivotal_StoryType
  State :: pivotal_StoryState

record pivotal_Story =
  Id :: int

record pivotal_Comment =
  Text :: string

datatype error = Error string

section \<open>Formatted output\<close>

text \<open>
  The operands the program hands to \<open>fmt\<close>. How \<open>fmt\<close> renders an operand under a
  verb is the library's business and is the parameter \<open>L\<close> of everything below, with one
  case fixed: the verb \<open>%s\<close> copies a string operand unchanged.
\<close>

datatype 't arg =
    AStr string
  | AInt int
  | ATime 't
  | AErr error
  | AGhLabels "github_Label list"
  | AStrs "string list"
  | AType pivotal_StoryType
  | AState pivotal_StoryState

type_synonym 't fmtlib = "char \<Rightarrow> 't arg \<Rightarrow> string"

fun fmtArg :: "'t fmtlib \<Rightarrow> char \<Rightarrow> 't arg \<Rightarrow> string" where
  "fmtArg L v (AStr s) = (if v = CHR ''s'' then s else L v (AStr s))"
| "fmtArg L v a = L v a"

fun joinWith :: "string \<Rightarrow> string list \<Rightarrow> string" where
  "joinWith sep [] = []"
| "joinWith sep [x] = x"
| "joinWith sep (x # y # ys) = x @ sep @ joinWith sep (y # ys)"

text \<open>
  Operands left over when the format string ends are reported as
  \<open>%!(EXTRA type=value, ...)\<close>; the \<open>type=value\<close> text of one operand is the
  library's and is read from \<open>L\<close> under the mark \<open>!\<close>, which is no verb.
\<close>

definition extraArgs :: "'t fmtlib \<Rightarrow> 't arg list \<Rightarrow> string" where
  "extraArgs L as =
     (if as = [] then []
      else ''%!(EXTRA '' @ joinWith '', '' (map (L (CHR ''!'')) as) @ '')'')"

text \<open>
  \<open>fmt.Sprintf\<close> for format strings whose verbs are bare (no flags, width or argument
  index), which is all this program uses: a verb consumes the next operand, \<open>%%\<close> is a
  percent sign, a verb without operand prints \<open>%!v(MISSING)\<close>, a lone \<open>%\<close> at the end
  prints \<open>%!(NOVERB)\<close>, surplus operands are reported at the end.
\<close>

fun sprintf :: "'t fmtlib \<Rightarrow> string \<Rightarrow> 't arg list \<Rightarrow> string" where
  "sprintf L [] as = extraArgs L as"
| "sprintf L [c] as = (if c = CHR ''%'' then ''%!(NOVERB)'' @ extraArgs L as else c # extraArgs L as)"
| "sprintf L (c # v # cs) as =
     (if c \<noteq> CHR ''%'' then c # sprintf L (v # cs) as
      else if v = CHR ''%'' then CHR ''%'' # sprintf L cs as
      else (case as of
              [] \<Rightarrow> ''%!'' @ [v] @ ''(MISSING)'' @ sprintf L cs []
            | a # as' \<Rightarrow> fmtArg L v a @ sprintf L cs as'))"

section \<open>Outcomes\<close>

text \<open>
  A nil dereference is a panic; \<open>log.Fatal\<close> and \<open>os.Exit\<close> end the process with an
  exit status. A function that can stop the program returns \<open>Inl\<close> of how it stopped.
\<close>

datatype stop = Panic | Exit int

section \<open>Record Converter\<close>

definition issueBodyFmt :: string where
  "issueBodyFmt =
     ''%s\<newline>```'' @
     ''\<newline>Migrated from Github\<newline>Created: %s\<newline>Labels: %q\<newline>'' @
     ''```\<newline>\<newline>''"

definition convertIssue ::
  "'t fmtlib \<Rightarrow> string \<Rightarrow> 't github_Issue \<Rightarrow> stop + pivotal_StoryRequest" where
  "convertIssue L repo is =
     (let labels = [\<lparr>pivotal_Label.Name = ''github-migrated''\<rparr>,
                    \<lparr>pivotal_Label.Name = sprintf L ''github-repo/%s'' [AStr repo]\<rparr>]
      in case github_Issue.HTMLURL is of None \<Rightarrow> Inl Panic | Some url \<Rightarrow>
         (case github_Issue.CreatedAt is of None \<Rightarrow> Inl Panic | Some created \<Rightarrow>
         (let body = sprintf L issueBodyFmt
                       [AStr url, ATime created, AGhLabels (github_Issue.Labels is)]
          in case github_Issue.Body is of None \<Rightarrow> Inl Panic | Some b \<Rightarrow>
             (let body = body @ b
              in case Title is of None \<Rightarrow> Inl Panic | Some title \<Rightarrow>
                 Inr \<lparr>pivotal_StoryRequest.Name = title,
                      Description = body,
                      pivotal_StoryRequest.Labels = Some labels,
                      Type = StoryTypeFeature,
                      State = StoryStateUnscheduled\<rparr>))))"

definition commentBodyFmt :: string where
  "commentBodyFmt =
     ''%s\<newline>```'' @
     ''\<newline>Migrated from Github\<newline>Created: %s\<newline>Author: %s\<newline>'' @
     ''```\<newline>\<newline>''"

definition convertComment :: "'t fmtlib \<Rightarrow> 't github_IssueComment \<Rightarrow> stop + pivotal_Comment" where
  "convertComment L cm =
     (case github_IssueComment.HTMLURL cm of None \<Rightarrow> Inl Panic | Some url \<Rightarrow>
      (case github_IssueComment.CreatedAt cm of None \<Rightarrow> Inl Panic | Some created \<Rightarrow>
      (case User cm of None \<Rightarrow> Inl Panic | Some user \<Rightarrow>
      (case Login user of None \<Rightarrow> Inl Panic | Some login \<Rightarrow>
      (let body = sprintf L commentBodyFmt [AStr url, ATime created, AStr login]
       in case github_IssueComment.Body cm of None \<Rightarrow> Inl Panic | Some b \<Rightarrow>
          (let body = body @ b
           in Inr \<lparr>Text = body\<rparr>))))))"

definition trunc :: "string \<Rightarrow> string" where
  "trunc s = (if length s < 255 then s else take 255 s)"

section \<open>Flags, clients and the observable run\<close>

record flags =
  owner :: string
  repos :: "string list"
  ghToken :: string
  ptToken :: string
  ptProjId :: int
  limit :: int
  dryRun :: bool

text \<open>The defaults registered in \<open>init\<close>; \<open>repos\<close> starts empty.\<close>

definition init :: flags where
  "init = \<lparr>owner = [], repos = [], ghToken = [], ptToken = [],
            ptProjId = 0, limit = 1000, dryRun = True\<rparr>"

text \<open>
  The two remote services are parameters. Each call reads the state \<open>'w\<close> of the world
  outside the program and returns its answer with the next state, so an answer may depend
  on everything that happened before. A Go result \<open>(value, _, err)\<close> is a pair whose
  second part is \<open>None\<close> when \<open>err\<close> is \<open>nil\<close>; a \<open>nil\<close> slice is the empty list.
  The issues and comments in a returned slice are taken to be non-nil pointers.
\<close>

record ('w, 't) github_IssuesService =
  ListByRepo :: "'w \<Rightarrow> string \<Rightarrow> string \<Rightarrow> string \<Rightarrow> int
                 \<Rightarrow> ('t github_Issue list \<times> error option) \<times> 'w"
  ListComments :: "'w \<Rightarrow> string \<Rightarrow> string \<Rightarrow> int \<Rightarrow> int
                 \<Rightarrow> ('t github_IssueComment list \<times> error option) \<times> 'w"

record 'w pivotal_StoryService =
  Create :: "'w \<Rightarrow> int \<Rightarrow> pivotal_StoryRequest
                 \<Rightarrow> (pivotal_Story option \<times> error option) \<times> 'w"
  AddComment :: "'w \<Rightarrow> int \<Rightarrow> int \<Rightarrow> pivotal_Comment \<Rightarrow> error option \<times> 'w"

record ('w, 't) clients =
  ghSvc :: "('w, 't) github_IssuesService"
  ptSvc :: "'w pivotal_StoryService"

text \<open>
  What the run does to the outside, in order: text written to standard output, the message
  of a \<open>log.Fatal\<close>, and every call to a service with its arguments and its answer.
\<close>

datatype 't event =
    Stdout string
  | LogFatal string
  | CallListByRepo string string string int "'t github_Issue list" "error option"
  | CallListComments string string int int "'t github_IssueComment list" "error option"
  | CallCreate int pivotal_StoryRequest "pivotal_Story option" "error option"
  | CallAddComment int int pivotal_Comment "error option"

record ('w, 't) state =
  world :: 'w
  trace :: "'t event list"

definition emit :: "'t event \<Rightarrow> ('w, 't) state \<Rightarrow> ('w, 't) state" where
  "emit e s = s\<lparr>trace := trace s @ [e]\<rparr>"

definition Printf :: "'t fmtlib \<Rightarrow> string \<Rightarrow> 't arg list \<Rightarrow> ('w, 't) state \<Rightarrow> ('w, 't) state" where
  "Printf L fmtStr as s = emit (Stdout (sprintf L fmtStr as)) s"

definition Println :: "string \<Rightarrow> ('w, 't) state \<Rightarrow> ('w, 't) state" where
  "Println str s = emit (Stdout (str @ ''\<newline>'')) s"

definition Fatalf ::
  "'t fmtlib \<Rightarrow> string \<Rightarrow> 't arg list \<Rightarrow> ('w, 't) state \<Rightarrow> (stop + 'a) \<times> ('w, 't) state" where
  "Fatalf L fmtStr as s = (Inl (Exit 1), emit (LogFatal (sprintf L fmtStr as)) s)"

section \<open>Reporter\<close>

definition printIssue ::
  "'t fmtlib \<Rightarrow> 't github_Issue \<Rightarrow> ('w, 't) state \<Rightarrow> (stop + unit) \<times> ('w, 't) state" where
  "printIssue L is s =
     (let fmtStr = ''\<newline>--- issue ---\<newline>Number: %d\<newline>Title: %s\<newline>URL: %s\<newline>Created: %s\<newline>Labels: %q\<newline>--- /issue ---\<newline>''
      in case Number is of None \<Rightarrow> (Inl Panic, s) | Some number \<Rightarrow>
         (case Title is of None \<Rightarrow> (Inl Panic, s) | Some title \<Rightarrow>
         (case github_Issue.HTMLURL is of None \<Rightarrow> (Inl Panic, s) | Some url \<Rightarrow>
         (case github_Issue.CreatedAt is of None \<Rightarrow> (Inl Panic, s) | Some created \<Rightarrow>
            (Inr (), Printf L fmtStr
                       [AInt number, AStr title, AStr url, ATime created,
                        AGhLabels (github_Issue.Labels is)] s)))))"

definition printStory ::
  "'t fmtlib \<Rightarrow> pivotal_StoryRequest \<Rightarrow> ('w, 't) state \<Rightarrow> (stop + unit) \<times> ('w, 't) state" where
  "printStory L sr s =
     (case pivotal_StoryRequest.Labels sr of None \<Rightarrow> (Inl Panic, s) | Some ls \<Rightarrow>
      (let labels = map pivotal_Label.Name ls;
           fmtStr = ''\<newline>--- story ---\<newline>Name: %s\<newline>Description: %s\<newline>Type: %s\<newline>State: %s\<newline>Labels: %q\<newline>--- /story ---\<newline>''
       in (Inr (), Printf L fmtStr
                     [AStr (pivotal_StoryRequest.Name sr), AStr (trunc (Description sr)),
                      AType (Type sr), AState (State sr), AStrs labels] s)))"

definition printIssueComment ::
  "'t fmtlib \<Rightarrow> 't github_IssueComment \<Rightarrow> ('w, 't) state \<Rightarrow> (stop + unit) \<times> ('w, 't) state" where
  "printIssueComment L cm s =
     (let fmtStr = ''\<newline>--- issue comment ---\<newline>Author: %s\<newline>Created: %s\<newline>Body: %s\<newline>--- /issue comment ---\<newline>''
      in case User cm of None \<Rightarrow> (Inl Panic, s) | Some user \<Rightarrow>
         (case Login user of None \<Rightarrow> (Inl Panic, s) | Some login \<Rightarrow>
         (case github_IssueComment.CreatedAt cm of None \<Rightarrow> (Inl Panic, s) | Some created \<Rightarrow>
         (case github_IssueComment.Body cm of None \<Rightarrow> (Inl Panic, s) | Some b \<Rightarrow>
            (Inr (), Printf L fmtStr [AStr login, ATime created, AStr (trunc b)] s)))))"

definition printStoryComment ::
  "'t fmtlib \<Rightarrow> pivotal_Comment \<Rightarrow> ('w, 't) state \<Rightarrow> ('w, 't) state" where
  "printStoryComment L cm s =
     (let fmtStr = ''\<newline>--- story comment ---\<newline>Text: %s\<newline>--- /story comment ---\<newline>''
      in Printf L fmtStr [AStr (trunc (Text cm))] s)"

section \<open>Migration Orchestrator\<close>

text \<open>
  The loop over the comments of one issue, in the order the source returned them.
  \<open>newStory\<close> is the pointer \<open>migrateIssue\<close> holds: \<open>nil\<close> in a dry run.
\<close>

fun migrateComments ::
  "('w, 't) clients \<Rightarrow> 't fmtlib \<Rightarrow> flags \<Rightarrow> pivotal_Story option
   \<Rightarrow> 't github_IssueComment list \<Rightarrow> ('w, 't) state \<Rightarrow> (stop + unit) \<times> ('w, 't) state" where
  "migrateComments C L f newStory [] s = (Inr (), s)"
| "migrateComments C L f newStory (cm # cms) s =
     (case convertComment L cm of Inl e \<Rightarrow> (Inl e, s) | Inr commentReq \<Rightarrow>
      (if dryRun f then
         (case printIssueComment L cm s of
            (Inl e, s') \<Rightarrow> (Inl e, s')
          | (Inr _, s') \<Rightarrow> migrateComments C L f newStory cms (printStoryComment L commentReq s'))
       else
         (case newStory of None \<Rightarrow> (Inl Panic, s) | Some story \<Rightarrow>
          (let (err, w) = AddComment (ptSvc C) (world s) (ptProjId f) (Id story) commentReq;
               s' = emit (CallAddComment (ptProjId f) (Id story) commentReq err) (s\<lparr>world := w\<rparr>)
           in case err of
                Some e \<Rightarrow> Fatalf L ''error creating comment: %v'' [AErr e] s'
              | None \<Rightarrow> migrateComments C L f newStory cms s'))))"

definition migrateIssue ::
  "('w, 't) clients \<Rightarrow> 't fmtlib \<Rightarrow> flags \<Rightarrow> string \<Rightarrow> 't github_Issue
   \<Rightarrow> ('w, 't) state \<Rightarrow> (stop + unit) \<times> ('w, 't) state" where
  "migrateIssue C L f repo is s0 =
     (let s1 = Println ''\<newline>===== begin =====\<newline>'' s0
      in case convertIssue L repo is of Inl e \<Rightarrow> (Inl e, s1) | Inr storyReq \<Rightarrow>
      (case (if dryRun f then
               (case printIssue L is s1 of
                  (Inl e, s) \<Rightarrow> (Inl e, s)
                | (Inr _, s) \<Rightarrow>
                  (case printStory L storyReq s of
                     (Inl e, s') \<Rightarrow> (Inl e, s')
                   | (Inr _, s') \<Rightarrow> (Inr None, s')))
             else
               (let ((newStory, err), w) = Create (ptSvc C) (world s1) (ptProjId f) storyReq;
                    s = emit (CallCreate (ptProjId f) storyReq newStory err) (s1\<lparr>world := w\<rparr>)
                in case err of
                     Some e \<Rightarrow> Fatalf L ''error creating story: %v'' [AErr e] s
                   | None \<Rightarrow> (Inr newStory, s)))
       of (Inl e, s2) \<Rightarrow> (Inl e, s2) | (Inr newStory, s2) \<Rightarrow>
       (case Number is of None \<Rightarrow> (Inl Panic, s2) | Some number \<Rightarrow>
        (let ((ghComments, err), w) =
               ListComments (ghSvc C) (world s2) (owner f) repo number 1000;
             s3 = emit (CallListComments (owner f) repo number 1000 ghComments err)
                    (s2\<lparr>world := w\<rparr>)
         in case err of
              Some e \<Rightarrow>
                Fatalf L ''failed to list gh comments for repo: %s, issue %d: error: %v''
                  [AStr repo, AInt number, AErr e] s3
            | None \<Rightarrow>
              (let s4 = Printf L ''found %d comments for issue number: %d''
                          [AInt (int (length ghComments)), AInt number] s3
               in case migrateComments C L f newStory ghComments s4 of
                    (Inl e, s5) \<Rightarrow> (Inl e, s5)
                  | (Inr _, s5) \<Rightarrow> (Inr (), Println ''\<newline>===== end =====\<newline>'' s5))))))"

text \<open>The loop over the issues of one repository.\<close>

fun migrateIssues ::
  "('w, 't) clients \<Rightarrow> 't fmtlib \<Rightarrow> flags \<Rightarrow> string \<Rightarrow> 't github_Issue list
   \<Rightarrow> ('w, 't) state \<Rightarrow> (stop + unit) \<times> ('w, 't) state" where
  "migrateIssues C L f repo [] s = (Inr (), s)"
| "migrateIssues C L f repo (is # iss) s =
     (case migrateIssue C L f repo is s of
        (Inl e, s') \<Rightarrow> (Inl e, s')
      | (Inr _, s') \<Rightarrow> migrateIssues C L f repo iss s')"

text \<open>The loop over the configured repositories.\<close>

fun migrateRepos ::
  "('w, 't) clients \<Rightarrow> 't fmtlib \<Rightarrow> flags \<Rightarrow> string list
   \<Rightarrow> ('w, 't) state \<Rightarrow> (stop + unit) \<times> ('w, 't) state" where
  "migrateRepos C L f [] s = (Inr (), s)"
| "migrateRepos C L f (repo # rs) s =
     (let s1 = Printf L ''Analysing repo: %s/%s\<newline>'' [AStr (owner f), AStr repo] s;
          ((iss, err), w) = ListByRepo (ghSvc C) (world s1) (owner f) repo ''open'' (limit f);
          s2 = emit (CallListByRepo (owner f) repo ''open'' (limit f) iss err) (s1\<lparr>world := w\<rparr>)
      in case err of
           Some e \<Rightarrow>
             Fatalf L ''failed to list issues for repo: %s, error: %v'' [AStr repo, AErr e] s2
         | None \<Rightarrow>
           (let s3 = Printf L ''found %d issues to migrate'' [AInt (int (length iss))] s2
            in case migrateIssues C L f repo iss s3 of
                 (Inl e, s4) \<Rightarrow> (Inl e, s4)
               | (Inr _, s4) \<Rightarrow> migrateRepos C L f rs s4))"

text \<open>
  \<open>main\<close> after \<open>flag.Parse\<close> has filled \<open>flags\<close> and \<open>initClients\<close> has built the two
  clients, which only allocates them. The run always ends by stopping the process.
\<close>

definition main ::
  "('w, 't) clients \<Rightarrow> 't fmtlib \<Rightarrow> flags \<Rightarrow> ('w, 't) state \<Rightarrow> stop \<times> ('w, 't) state" where
  "main C L f s =
     (if length (repos f) < 1 then
        (Exit 1, emit (LogFatal ''no github repos specified'') s)
      else
        (case migrateRepos C L f (repos f) s of
           (Inl e, s') \<Rightarrow> (e, s')
         | (Inr _, s') \<Rightarrow> (Exit 0, Println ''Finished.'' s')))"

section \<open>Reading a trace\<close>

text \<open>The calls that change the destination service.\<close>

fun isDestinationCall :: "'t event \<Rightarrow> bool" where
  "isDestinationCall (CallCreate _ _ _ _) = True"
| "isDestinationCall (CallAddComment _ _ _ _) = True"
| "isDestinationCall _ = False"

fun isLogFatal :: "'t event \<Rightarrow> bool" where
  "isLogFatal (LogFatal _) = True"
| "isLogFatal _ = False"

fun isStdout :: "'t event \<Rightarrow> bool" where
  "isStdout (Stdout _) = True"
| "isStdout _ = False"

text \<open>
  \<open>attachedTo p ns err e\<close>: the event \<open>e\<close>, seen after a \<open>Create\<close> that answered
  \<open>(ns, err)\<close>, is no second \<open>Create\<close>, and if it is an \<open>AddComment\<close> then the
  \<open>Create\<close> succeeded and the comment goes to project \<open>p\<close> and to the story \<open>Create\<close>
  returned.
\<close>

fun attachedTo :: "int \<Rightarrow> pivotal_Story option \<Rightarrow> error option \<Rightarrow> 't event \<Rightarrow> bool" where
  "attachedTo p ns err (CallCreate _ _ _ _) = False"
| "attachedTo p ns err (CallAddComment p' sid _ _) =
     (p' = p \<and> err = None \<and> (case ns of None \<Rightarrow> False | Some st \<Rightarrow> sid = Id st))"
| "attachedTo p ns err _ = True"

text \<open>The first line \<open>migrateIssue\<close> prints: \<open>Println\<close> adds a newline to its operand.\<close>

definition beginLine :: string where
  "beginLine = ''\<newline>===== begin =====\<newline>'' @ ''\<newline>''"

text \<open>
  \<open>grows P s s'\<close>: the trace of \<open>s'\<close> is the trace of \<open>s\<close> followed by events that all
  satisfy \<open>P\<close>.
\<close>

definition grows :: "('t event \<Rightarrow> bool) \<Rightarrow> ('w, 't) state \<Rightarrow> ('w, 't) state \<Rightarrow> bool" where
  "grows P s s' = (\<exists>new. trace s' = trace s @ new \<and> (\<forall>e\<in>set new. P e))"

definition noDest :: "('w, 't) state \<Rightarrow> ('w, 't) state \<Rightarrow> bool" where
  "noDest s0 s = grows (\<lambda>e. \<not> isDestinationCall e) s0 s"

text \<open>
  What the comment loop may add to the trace in live mode: a fatal log, or an
  \<open>AddComment\<close> to the story held in \<open>newStory\<close> whose comment is the conversion of one of
  the fetched comments.
\<close>

definition attaches ::
  "'t fmtlib \<Rightarrow> int \<Rightarrow> pivotal_Story option \<Rightarrow> 't github_IssueComment list \<Rightarrow> 't event \<Rightarrow> bool" where
  "attaches L p newStory cms e =
     (isLogFatal e \<or>
      (\<exists>st cm c err. newStory = Some st \<and> cm \<in> set cms \<and> convertComment L cm = Inr c \<and>
         e = CallAddComment p (Id st) c err))"

section \<open>A concrete run\<close>

text \<open>
  One repository \<open>acme/widgets\<close> with one open issue, number 42, and one comment on it.
  The services answer the same to every call and count the calls in the world state; listing
  the repository \<open>broken\<close> fails. \<open>plainFmt\<close> stands for the formatting library in the
  examples: it prints text operands as they are and nothing for the others.
\<close>

definition plainFmt :: "string fmtlib" where
  "plainFmt v a =
     (case a of
        AStr s \<Rightarrow> s
      | ATime t \<Rightarrow> t
      | AGhLabels ls \<Rightarrow> concat (map (\<lambda>l. case github_Label.Name l of None \<Rightarrow> [] | Some n \<Rightarrow> n) ls)
      | AStrs ss \<Rightarrow> concat ss
      | AErr (Error m) \<Rightarrow> m
      | _ \<Rightarrow> [])"

definition issue42 :: "string github_Issue" where
  "issue42 = \<lparr>Number = Some 42, Title = Some ''Bug: crash on load'',
               github_Issue.HTMLURL = Some ''https://github.com/acme/widgets/issues/42'',
               github_Issue.CreatedAt = Some ''2015-06-01 10:00:00 +0000 UTC'',
               github_Issue.Body = Some ''steps...'',
               github_Issue.Labels = [\<lparr>URL = None, github_Label.Name = Some ''bug'', Color = None\<rparr>]\<rparr>"

definition comment1 :: "string github_IssueComment" where
  "comment1 = \<lparr>github_IssueComment.HTMLURL = Some ''https://github.com/acme/widgets/issues/42#c1'',
                github_IssueComment.CreatedAt = Some ''2015-06-02 11:00:00 +0000 UTC'',
                User = Some \<lparr>Login = Some ''alice''\<rparr>,
                github_IssueComment.Body = Some ''confirmed''\<rparr>"

definition story42 :: pivotal_StoryRequest where
  "story42 = \<lparr>pivotal_StoryRequest.Name = ''Bug: crash on load'',
      Description = ''https://github.com/acme/widgets/issues/42\<newline>```\<newline>Migrated from Github\<newline>Created: 2015-06-01 10:00:00 +0000 UTC\<newline>Labels: bug\<newline>```\<newline>\<newline>steps...'',
      pivotal_StoryRequest.Labels =
        Some [\<lparr>pivotal_Label.Name = ''github-migrated''\<rparr>,
              \<lparr>pivotal_Label.Name = ''github-repo/widgets''\<rparr>],
      Type = StoryTypeFeature, State = StoryStateUnscheduled\<rparr>"

definition longIssue :: "string github_Issue" where
  "longIssue = issue42\<lparr>github_Issue.Body := Some (replicate 300 (CHR ''x''))\<rparr>"

definition demoGh :: "(nat, string) github_IssuesService" where
  "demoGh = \<lparr>ListByRepo = (\<lambda>w ow repo st lim.
                 if repo = ''broken'' then (([], Some (Error ''boom'')), w + 1)
                 else (([issue42], None), w + 1)),
             ListComments = (\<lambda>w ow repo n pp. (([comment1], None), w + 1))\<rparr>"

definition demoPt :: "nat pivotal_StoryService" where
  "demoPt = \<lparr>Create = (\<lambda>w p sr. ((Some \<lparr>Id = 7\<rparr>, None), w + 1)),
             AddComment = (\<lambda>w p sid c. (None, w + 1))\<rparr>"

definition demoClients :: "(nat, string) clients" where
  "demoClients = \<lparr>ghSvc = demoGh, ptSvc = demoPt\<rparr>"

definition dryFlags :: flags where
  "dryFlags = init\<lparr>owner := ''acme'', repos := [''widgets''], ptProjId := 99\<rparr>"

definition liveFlags :: flags where
  "liveFlags = dryFlags\<lparr>dryRun := False\<rparr>"

definition brokenFlags :: flags where
  "brokenFlags = dryFlags\<lparr>repos := [''widgets'', ''broken'', ''other'']\<rparr>"

definition start :: "(nat, string) state" where
  "start = \<lparr>world = 0, trace = []\<rparr>"

lemmas demo_defs = demoClients_def demoGh_def demoPt_def dryFlags_def liveFlags_def init_def
  start_def issue42_def comment1_def plainFmt_def

lemmas run_defs = main_def migrateIssue_def convertIssue_def convertComment_def printIssue_def
  printStory_def printIssueComment_def printStoryComment_def Printf_def Println_def Fatalf_def
  emit_def Let_def issueBodyFmt_def commentBodyFmt_def extraArgs_def trunc_def

section \<open>The format strings of the converters\<close>

lemma sprintf_issueBodyFmt:
  "sprintf L issueBodyFmt [AStr url, ATime created, AGhLabels ls] =
     url @ ''\<newline>```\<newline>Migrated from Github\<newline>Created: '' @ L (CHR ''s'') (ATime created) @
     ''\<newline>Labels: '' @ L (CHR ''q'') (AGhLabels ls) @ ''\<newline>```\<newline>\<newline>''"
  by (simp add: issueBodyFmt_def extraArgs_def)

lemma sprintf_commentBodyFmt:
  "sprintf L commentBodyFmt [AStr url, ATime created, AStr login] =
     url @ ''\<newline>```\<newline>Migrated from Github\<newline>Created: '' @ L (CHR ''s'') (ATime created) @
     ''\<newline>Author: '' @ login @ ''\<newline>```\<newline>\<newline>''"
  by (simp add: commentBodyFmt_def extraArgs_def)

lemma sprintf_repo_label: "sprintf L ''github-repo/%s'' [AStr repo] = ''github-repo/'' @ repo"
  by (simp add: extraArgs_def)

section \<open>Truncation\<close>

text \<open>
  C5. \<open>trunc s\<close> is \<open>s\<close> when \<open>len(s) < 255\<close> and otherwise exactly the first 255
  characters of \<open>s\<close>, with nothing appended. Lengths and characters are those of a Go
  string: bytes.
\<close>

theorem trunc_spec:
  "(length s < 255 \<longrightarrow> trunc s = s) \<and> (\<not> length s < 255 \<longrightarrow> trunc s = take 255 s \<and> length (trunc s) = 255)"
  by (simp add: trunc_def)

theorem trunc_spec_witness:
  "length ''steps...'' < 255 \<and> trunc ''steps...'' = ''steps...'' \<and>
   \<not> length (replicate 300 (CHR ''a'')) < 255 \<and>
   trunc (replicate 300 (CHR ''a'')) = replicate 255 (CHR ''a'')"
  using trunc_spec [of "''steps...''"] trunc_spec [of "replicate 300 (CHR ''a'')"]
  by simp

section \<open>The converters\<close>

text \<open>
  C2. For an issue with all fields present, the description built by \<open>convertIssue\<close> is
  the origin URL, the provenance block with the creation timestamp as \<open>%s\<close> prints it and
  the labels as \<open>%q\<close> prints them, and then the issue body, unchanged, at the end.
\<close>

theorem convertIssue_description:
  assumes "github_Issue.HTMLURL is = Some url" and "github_Issue.CreatedAt is = Some created"
    and "github_Issue.Body is = Some b" and "Title is = Some title"
  shows "\<exists>sr. convertIssue L repo is = Inr sr \<and>
           Description sr =
             url @ ''\<newline>```\<newline>Migrated from Github\<newline>Created: '' @
             L (CHR ''s'') (ATime created) @ ''\<newline>Labels: '' @
             L (CHR ''q'') (AGhLabels (github_Issue.Labels is)) @ ''\<newline>```\<newline>\<newline>'' @ b"
  using assms by (simp add: convertIssue_def sprintf_issueBodyFmt del: sprintf.simps)

theorem convertIssue_description_witness:
  "\<exists>sr. convertIssue plainFmt ''widgets'' issue42 = Inr sr \<and>
     Description sr =
       ''https://github.com/acme/widgets/issues/42\<newline>```\<newline>Migrated from Github\<newline>Created: 2015-06-01 10:00:00 +0000 UTC\<newline>Labels: bug\<newline>```\<newline>\<newline>steps...''"
  using convertIssue_description [of issue42 "''https://github.com/acme/widgets/issues/42''"
      "''2015-06-01 10:00:00 +0000 UTC''" "''steps...''" "''Bug: crash on load''" plainFmt "''widgets''"]
  by (simp add: issue42_def plainFmt_def)

text \<open>
  C6. For a comment with all fields present, the text built by \<open>convertComment\<close> is the
  origin URL, the provenance block with the creation timestamp and the author's login, and
  then the comment body, unchanged, at the end.
\<close>

theorem convertComment_text:
  assumes "github_IssueComment.HTMLURL cm = Some url"
    and "github_IssueComment.CreatedAt cm = Some created"
    and "User cm = Some user" and "Login user = Some login"
    and "github_IssueComment.Body cm = Some b"
  shows "\<exists>c. convertComment L cm = Inr c \<and>
           Text c =
             url @ ''\<newline>```\<newline>Migrated from Github\<newline>Created: '' @
             L (CHR ''s'') (ATime created) @ ''\<newline>Author: '' @ login @
             ''\<newline>```\<newline>\<newline>'' @ b"
  using assms by (simp add: convertComment_def sprintf_commentBodyFmt del: sprintf.simps)

theorem convertComment_text_witness:
  "\<exists>c. convertComment plainFmt comment1 = Inr c \<and>
     Text c =
       ''https://github.com/acme/widgets/issues/42#c1\<newline>```\<newline>Migrated from Github\<newline>Created: 2015-06-02 11:00:00 +0000 UTC\<newline>Author: alice\<newline>```\<newline>\<newline>confirmed''"
  using convertComment_text [of comment1 "''https://github.com/acme/widgets/issues/42#c1''"
      "''2015-06-02 11:00:00 +0000 UTC''" "\<lparr>Login = Some ''alice''\<rparr>" "''alice''" "''confirmed''" plainFmt]
  by (simp add: comment1_def plainFmt_def)

text \<open>
  C4, as the code has it. Every story request \<open>convertIssue\<close> returns carries exactly two
  labels, in this order: the fixed label \<open>github-migrated\<close> and the label
  \<open>github-repo/<name>\<close> for the repository name; so exactly one label is scoped to the
  repository.
\<close>

theorem convertIssue_labels:
  "convertIssue L repo is = Inr sr \<Longrightarrow>
     pivotal_StoryRequest.Labels sr =
       Some [\<lparr>pivotal_Label.Name = ''github-migrated''\<rparr>,
             \<lparr>pivotal_Label.Name = ''github-repo/'' @ repo\<rparr>] \<and>
     length (filter (\<lambda>l. pivotal_Label.Name l = ''github-repo/'' @ repo)
               [\<lparr>pivotal_Label.Name = ''github-migrated''\<rparr>,
                \<lparr>pivotal_Label.Name = ''github-repo/'' @ repo\<rparr>]) = 1"
  by (auto simp: convertIssue_def Let_def sprintf_repo_label split: option.splits simp del: sprintf.simps)

theorem convertIssue_labels_witness:
  "convertIssue plainFmt ''widgets'' issue42 = Inr story42 \<and>
   pivotal_StoryRequest.Labels story42 =
       Some [\<lparr>pivotal_Label.Name = ''github-migrated''\<rparr>,
             \<lparr>pivotal_Label.Name = ''github-repo/widgets''\<rparr>]"
  using convertIssue_labels [of plainFmt "''widgets''" issue42 story42]
  by (simp add: run_defs demo_defs story42_def)

text \<open>
  C4, as stated, asks for a label of the form \<open>repo/<name>\<close> (and the specification names
  the marker \<open>migrated-marker\<close>). For the repository \<open>widgets\<close> the labels are
  \<open>github-migrated\<close> and \<open>github-repo/widgets\<close>: no label is \<open>repo/widgets\<close> and none
  is \<open>migrated-marker\<close>.
\<close>

theorem convertIssue_labels_counterexample:
  "convertIssue plainFmt ''widgets'' issue42 = Inr story42 \<and>
   pivotal_StoryRequest.Labels story42 =
       Some [\<lparr>pivotal_Label.Name = ''github-migrated''\<rparr>,
             \<lparr>pivotal_Label.Name = ''github-repo/widgets''\<rparr>] \<and>
   \<lparr>pivotal_Label.Name = ''repo/widgets''\<rparr> \<notin>
     set [\<lparr>pivotal_Label.Name = ''github-migrated''\<rparr>,
          \<lparr>pivotal_Label.Name = ''github-repo/widgets''\<rparr>] \<and>
   \<lparr>pivotal_Label.Name = ''migrated-marker''\<rparr> \<notin>
     set [\<lparr>pivotal_Label.Name = ''github-migrated''\<rparr>,
          \<lparr>pivotal_Label.Name = ''github-repo/widgets''\<rparr>]"
  by (simp add: run_defs demo_defs story42_def)

text \<open>
  C10. The converters dereference their input without a nil check. \<open>convertIssue\<close>
  panics exactly when one of \<open>HTMLURL\<close>, \<open>CreatedAt\<close>, \<open>Body\<close>, \<open>Title\<close> is nil and
  returns a request exactly when all four are present; \<open>convertComment\<close> panics exactly
  when one of \<open>HTMLURL\<close>, \<open>CreatedAt\<close>, \<open>User\<close>, \<open>User.Login\<close>, \<open>Body\<close> is nil and
  returns a comment exactly when all are present. \<open>migrateIssue\<close> on an issue whose
  \<open>Number\<close> is nil never completes: it panics, unless a failing \<open>Create\<close> has ended a live
  run before the number is read.
\<close>

theorem converters_partial:
  "(convertIssue L repo is = Inl Panic \<longleftrightarrow>
      github_Issue.HTMLURL is = None \<or> github_Issue.CreatedAt is = None \<or>
      github_Issue.Body is = None \<or> Title is = None) \<and>
   ((\<exists>sr. convertIssue L repo is = Inr sr) \<longleftrightarrow>
      github_Issue.HTMLURL is \<noteq> None \<and> github_Issue.CreatedAt is \<noteq> None \<and>
      github_Issue.Body is \<noteq> None \<and> Title is \<noteq> None) \<and>
   (convertComment L cm = Inl Panic \<longleftrightarrow>
      github_IssueComment.HTMLURL cm = None \<or> github_IssueComment.CreatedAt cm = None \<or>
      User cm = None \<or> (\<exists>u. User cm = Some u \<and> Login u = None) \<or>
      github_IssueComment.Body cm = None) \<and>
   ((\<exists>c. convertComment L cm = Inr c) \<longleftrightarrow>
      github_IssueComment.HTMLURL cm \<noteq> None \<and> github_IssueComment.CreatedAt cm \<noteq> None \<and>
      (\<exists>u. User cm = Some u \<and> Login u \<noteq> None) \<and> github_IssueComment.Body cm \<noteq> None) \<and>
   (Number is = None \<longrightarrow>
      fst (migrateIssue C L f repo is s) =
        (if \<not> dryRun f \<and>
            (\<exists>sr. convertIssue L repo is = Inr sr \<and>
                  snd (fst (Create (ptSvc C) (world s) (ptProjId f) sr)) \<noteq> None)
         then Inl (Exit 1) else Inl Panic))"
proof (intro conjI impI)
  show "convertIssue L repo is = Inl Panic \<longleftrightarrow>
      github_Issue.HTMLURL is = None \<or> github_Issue.CreatedAt is = None \<or>
      github_Issue.Body is = None \<or> Title is = None"
    by (auto simp: convertIssue_def Let_def split: option.splits simp del: sprintf.simps)
  show "(\<exists>sr. convertIssue L repo is = Inr sr) \<longleftrightarrow>
      github_Issue.HTMLURL is \<noteq> None \<and> github_Issue.CreatedAt is \<noteq> None \<and>
      github_Issue.Body is \<noteq> None \<and> Title is \<noteq> None"
    by (auto simp: convertIssue_def Let_def split: option.splits simp del: sprintf.simps)
  show "convertComment L cm = Inl Panic \<longleftrightarrow>
      github_IssueComment.HTMLURL cm = None \<or> github_IssueComment.CreatedAt cm = None \<or>
      User cm = None \<or> (\<exists>u. User cm = Some u \<and> Login u = None) \<or>
      github_IssueComment.Body cm = None"
    by (auto simp: convertComment_def Let_def split: option.splits simp del: sprintf.simps)
  show "(\<exists>c. convertComment L cm = Inr c) \<longleftrightarrow>
      github_IssueComment.HTMLURL cm \<noteq> None \<and> github_IssueComment.CreatedAt cm \<noteq> None \<and>
      (\<exists>u. User cm = Some u \<and> Login u \<noteq> None) \<and> github_IssueComment.Body cm \<noteq> None"
    by (auto simp: convertComment_def Let_def split: option.splits simp del: sprintf.simps)
next
  assume n: "Number is = None"
  show "fst (migrateIssue C L f repo is s) =
        (if \<not> dryRun f \<and>
            (\<exists>sr. convertIssue L repo is = Inr sr \<and>
                  snd (fst (Create (ptSvc C) (world s) (ptProjId f) sr)) \<noteq> None)
         then Inl (Exit 1) else Inl Panic)"
  proof (cases "convertIssue L repo is")
    case (Inl e)
    then have "e = Panic"
      by (auto simp: convertIssue_def Let_def split: option.splits simp del: sprintf.simps)
    with Inl show ?thesis by (simp add: migrateIssue_def Let_def)
  next
    case (Inr sr)
    show ?thesis
    proof (cases "dryRun f")
      case True
      with Inr n show ?thesis
        by (simp add: migrateIssue_def Let_def printIssue_def)
    next
      case False
      obtain ns err w where cr: "Create (ptSvc C) (world s) (ptProjId f) sr = ((ns, err), w)"
        by (cases "Create (ptSvc C) (world s) (ptProjId f) sr") auto
      with Inr n False show ?thesis
        by (cases err) (simp_all add: migrateIssue_def Let_def Fatalf_def Println_def emit_def
            del: sprintf.simps)
    qed
  qed
qed

theorem converters_partial_witness:
  "convertIssue plainFmt ''widgets'' (issue42\<lparr>github_Issue.Body := None\<rparr>) = Inl Panic \<and>
   (\<exists>sr. convertIssue plainFmt ''widgets'' issue42 = Inr sr) \<and>
   convertComment plainFmt (comment1\<lparr>User := Some \<lparr>Login = None\<rparr>\<rparr>) = Inl Panic \<and>
   (\<exists>c. convertComment plainFmt comment1 = Inr c) \<and>
   Number (issue42\<lparr>Number := None\<rparr>) = None \<and>
   fst (migrateIssue demoClients plainFmt dryFlags ''widgets'' (issue42\<lparr>Number := None\<rparr>) start) =
     Inl Panic \<and>
   fst (migrateIssue demoClients plainFmt liveFlags ''widgets'' (issue42\<lparr>Number := None\<rparr>) start) =
     Inl Panic"
  using converters_partial [of plainFmt "''widgets''" "issue42\<lparr>github_Issue.Body := None\<rparr>"
      "comment1\<lparr>User := Some \<lparr>Login = None\<rparr>\<rparr>"]
    converters_partial [of plainFmt "''widgets''" issue42 comment1]
    converters_partial [of plainFmt "''widgets''" "issue42\<lparr>Number := None\<rparr>" comment1
      demoClients dryFlags start]
    converters_partial [of plainFmt "''widgets''" "issue42\<lparr>Number := None\<rparr>" comment1
      demoClients liveFlags start]
  by (simp add: demo_defs)

section \<open>How the trace grows\<close>

lemma grows_refl: "grows P s s"
  by (simp add: grows_def)

lemma grows_trans: "grows P s s1 \<Longrightarrow> grows P s1 s2 \<Longrightarrow> grows P s s2"
  unfolding grows_def by (metis Un_iff append.assoc set_append)

lemma grows_mono: "grows P s s' \<Longrightarrow> (\<And>e. P e \<Longrightarrow> Q e) \<Longrightarrow> grows Q s s'"
  unfolding grows_def by blast

lemma grows_emit_world: "P e \<Longrightarrow> grows P s (emit e (s\<lparr>world := w\<rparr>))"
  unfolding grows_def by (simp add: emit_def)

lemma grows_emit1: "P e \<Longrightarrow> grows P s (emit e s)"
  unfolding grows_def by (simp add: emit_def)

lemma grows_emit_acc: "grows P s0 s \<Longrightarrow> P e \<Longrightarrow> grows P s0 (emit e s)"
  unfolding grows_def by (auto simp: emit_def)

lemma grows_world_acc: "grows P s0 s \<Longrightarrow> grows P s0 (s\<lparr>world := w\<rparr>)"
  unfolding grows_def by simp

lemma grows_Println_acc: "grows P s0 s \<Longrightarrow> P (Stdout (str @ ''\<newline>'')) \<Longrightarrow> grows P s0 (Println str s)"
  unfolding Println_def by (rule grows_emit_acc)

lemma grows_Printf_acc: "grows P s0 s \<Longrightarrow> P (Stdout (sprintf L fmtStr as)) \<Longrightarrow> grows P s0 (Printf L fmtStr as s)"
  unfolding Printf_def by (rule grows_emit_acc)

lemma printIssue_acc:
  "printIssue L is s = (r, s') \<Longrightarrow> (\<And>str. P (Stdout str)) \<Longrightarrow> grows P s0 s \<Longrightarrow> grows P s0 s'"
  by (auto simp: printIssue_def Let_def intro: grows_Printf_acc split: option.splits simp del: sprintf.simps)

lemma printStory_acc:
  "printStory L sr s = (r, s') \<Longrightarrow> (\<And>str. P (Stdout str)) \<Longrightarrow> grows P s0 s \<Longrightarrow> grows P s0 s'"
  by (auto simp: printStory_def Let_def intro: grows_Printf_acc split: option.splits simp del: sprintf.simps)

lemma printIssueComment_acc:
  "printIssueComment L cm s = (r, s') \<Longrightarrow> (\<And>str. P (Stdout str)) \<Longrightarrow> grows P s0 s \<Longrightarrow> grows P s0 s'"
  by (auto simp: printIssueComment_def Let_def intro: grows_Printf_acc split: option.splits simp del: sprintf.simps)

lemma printStoryComment_acc:
  "(\<And>str. P (Stdout str)) \<Longrightarrow> grows P s0 s \<Longrightarrow> grows P s0 (printStoryComment L cm s)"
  by (auto simp: printStoryComment_def Let_def intro: grows_Printf_acc simp del: sprintf.simps)

section \<open>Dry run\<close>

lemma migrateComments_dry_acc:
  "dryRun f \<Longrightarrow> migrateComments C L f newStory cms s = (r, s') \<Longrightarrow>
     grows (\<lambda>e. \<not> isDestinationCall e) s0 s \<Longrightarrow> grows (\<lambda>e. \<not> isDestinationCall e) s0 s'"
proof (induction cms arbitrary: s)
  case Nil
  then show ?case by simp
next
  case (Cons cm cms)
  show ?case
  proof (cases "convertComment L cm")
    case (Inl e)
    with Cons.prems show ?thesis by simp
  next
    case (Inr commentReq)
    obtain r1 s1 where p1: "printIssueComment L cm s = (r1, s1)"
      by (cases "printIssueComment L cm s")
    have g1: "grows (\<lambda>e. \<not> isDestinationCall e) s0 s1"
      using p1 _ Cons.prems(3) by (rule printIssueComment_acc) simp
    show ?thesis
    proof (cases r1)
      case (Inl e)
      with Cons.prems Inr p1 g1 show ?thesis by simp
    next
      case r1: (Inr u)
      have g2: "grows (\<lambda>e. \<not> isDestinationCall e) s0 (printStoryComment L commentReq s1)"
        using _ g1 by (rule printStoryComment_acc) simp
      from Cons.prems Inr p1 r1
      have "migrateComments C L f newStory cms (printStoryComment L commentReq s1) = (r, s')"
        by simp
      from Cons.IH [OF Cons.prems(1) this g2] show ?thesis .
    qed
  qed
qed

lemma nd_refl: "noDest s s"
  by (simp add: noDest_def grows_refl)

lemma nd_Println: "noDest s0 s \<Longrightarrow> noDest s0 (Println str s)"
  unfolding noDest_def by (rule grows_Println_acc) simp_all

lemma nd_Printf: "noDest s0 s \<Longrightarrow> noDest s0 (Printf L fmtStr as s)"
  unfolding noDest_def by (rule grows_Printf_acc) simp_all

lemma nd_world: "noDest s0 s \<Longrightarrow> noDest s0 (s\<lparr>world := w\<rparr>)"
  unfolding noDest_def by (rule grows_world_acc)

lemma nd_LogFatal: "noDest s0 s \<Longrightarrow> noDest s0 (emit (LogFatal m) s)"
  unfolding noDest_def by (rule grows_emit_acc) simp_all

lemma nd_ListComments: "noDest s0 s \<Longrightarrow> noDest s0 (emit (CallListComments a b c d x y) s)"
  unfolding noDest_def by (rule grows_emit_acc) simp_all

lemma nd_ListByRepo: "noDest s0 s \<Longrightarrow> noDest s0 (emit (CallListByRepo a b c d x y) s)"
  unfolding noDest_def by (rule grows_emit_acc) simp_all

lemma nd_printIssue: "printIssue L is s = (r, s') \<Longrightarrow> noDest s0 s \<Longrightarrow> noDest s0 s'"
  unfolding noDest_def by (erule printIssue_acc) simp_all

lemma nd_printStory: "printStory L sr s = (r, s') \<Longrightarrow> noDest s0 s \<Longrightarrow> noDest s0 s'"
  unfolding noDest_def by (erule printStory_acc) simp_all

lemma nd_migrateComments:
  "dryRun f \<Longrightarrow> migrateComments C L f newStory cms s = (r, s') \<Longrightarrow> noDest s0 s \<Longrightarrow> noDest s0 s'"
  unfolding noDest_def by (rule migrateComments_dry_acc)

lemma nd_migrateIssue:
  assumes d: "dryRun f" and m: "migrateIssue C L f repo is s = (r, s')" and g: "noDest s0 s"
  shows "noDest s0 s'"
proof -
  let ?s1 = "Println ''\<newline>===== begin =====\<newline>'' s"
  have g1: "noDest s0 ?s1" using g by (rule nd_Println)
  show ?thesis
  proof (cases "convertIssue L repo is")
    case (Inl e)
    with m have "s' = ?s1" by (simp add: migrateIssue_def Let_def)
    with g1 show ?thesis by simp
  next
    case (Inr storyReq)
    obtain r1 sa where p1: "printIssue L is ?s1 = (r1, sa)" by (cases "printIssue L is ?s1")
    have ga: "noDest s0 sa" using p1 g1 by (rule nd_printIssue)
    obtain r2 sb where p2: "printStory L storyReq sa = (r2, sb)" by (cases "printStory L storyReq sa")
    have gb: "noDest s0 sb" using p2 ga by (rule nd_printStory)
    show ?thesis
    proof (cases r1)
      case (Inl e)
      with m d Inr p1 have "s' = sa" by (simp add: migrateIssue_def Let_def)
      with ga show ?thesis by simp
    next
      case r1: (Inr u1)
      show ?thesis
      proof (cases r2)
        case (Inl e)
        with m d Inr p1 r1 p2 have "s' = sb" by (simp add: migrateIssue_def Let_def)
        with gb show ?thesis by simp
      next
        case r2: (Inr u2)
        show ?thesis
        proof (cases "Number is")
          case None
          with m d Inr p1 r1 p2 r2 have "s' = sb" by (simp add: migrateIssue_def Let_def)
          with gb show ?thesis by simp
        next
          case (Some number)
          obtain ghComments err w
            where lc: "ListComments (ghSvc C) (world sb) (owner f) repo number 1000 = ((ghComments, err), w)"
            by (cases "ListComments (ghSvc C) (world sb) (owner f) repo number 1000") auto
          let ?s3 = "emit (CallListComments (owner f) repo number 1000 ghComments err) (sb\<lparr>world := w\<rparr>)"
          have g3: "noDest s0 ?s3" using gb by (intro nd_ListComments nd_world)
          show ?thesis
          proof (cases err)
            case (Some e)
            with m d Inr p1 r1 p2 r2 \<open>Number is = Some number\<close> lc
            have "s' = emit (LogFatal (sprintf L ''failed to list gh comments for repo: %s, issue %d: error: %v''
                  [AStr repo, AInt number, AErr e])) ?s3"
              by (simp add: migrateIssue_def Let_def Fatalf_def del: sprintf.simps)
            with g3 show ?thesis by (simp add: nd_LogFatal del: sprintf.simps)
          next
            case None
            let ?s4 = "Printf L ''found %d comments for issue number: %d''
                          [AInt (int (length ghComments)), AInt number] ?s3"
            have g4: "noDest s0 ?s4" using g3 by (rule nd_Printf)
            obtain r5 s5 where mc: "migrateComments C L f None ghComments ?s4 = (r5, s5)"
              by (cases "migrateComments C L f None ghComments ?s4")
            have g5: "noDest s0 s5" using d mc g4 by (rule nd_migrateComments)
            from m d Inr p1 r1 p2 r2 \<open>Number is = Some number\<close> lc None mc
            have "s' = s5 \<or> s' = Println ''\<newline>===== end =====\<newline>'' s5"
              by (cases r5) (simp_all add: migrateIssue_def Let_def del: sprintf.simps)
            with g5 show ?thesis by (auto intro: nd_Println)
          qed
        qed
      qed
    qed
  qed
qed

lemma nd_migrateIssues:
  "dryRun f \<Longrightarrow> migrateIssues C L f repo iss s = (r, s') \<Longrightarrow> noDest s0 s \<Longrightarrow> noDest s0 s'"
proof (induction iss arbitrary: s)
  case Nil
  then show ?case by simp
next
  case (Cons i iss)
  obtain r1 s1 where m: "migrateIssue C L f repo i s = (r1, s1)"
    by (cases "migrateIssue C L f repo i s")
  have g1: "noDest s0 s1" using Cons.prems(1) m Cons.prems(3) by (rule nd_migrateIssue)
  show ?case
  proof (cases r1)
    case (Inl e)
    with Cons.prems m g1 show ?thesis by simp
  next
    case (Inr u)
    with Cons.prems m have "migrateIssues C L f repo iss s1 = (r, s')" by simp
    from Cons.IH [OF Cons.prems(1) this g1] show ?thesis .
  qed
qed

lemma nd_migrateRepos:
  "dryRun f \<Longrightarrow> migrateRepos C L f rs s = (r, s') \<Longrightarrow> noDest s0 s \<Longrightarrow> noDest s0 s'"
proof (induction rs arbitrary: s)
  case Nil
  then show ?case by simp
next
  case (Cons repo rs)
  let ?s1 = "Printf L ''Analysing repo: %s/%s\<newline>'' [AStr (owner f), AStr repo] s"
  have g1: "noDest s0 ?s1" using Cons.prems(3) by (rule nd_Printf)
  obtain iss err w
    where l: "ListByRepo (ghSvc C) (world ?s1) (owner f) repo ''open'' (limit f) = ((iss, err), w)"
    by (cases "ListByRepo (ghSvc C) (world ?s1) (owner f) repo ''open'' (limit f)") auto
  let ?s2 = "emit (CallListByRepo (owner f) repo ''open'' (limit f) iss err) (?s1\<lparr>world := w\<rparr>)"
  have g2: "noDest s0 ?s2" using g1 by (intro nd_ListByRepo nd_world)
  show ?case
  proof (cases err)
    case (Some e)
    with Cons.prems(2) l
    have "s' = emit (LogFatal (sprintf L ''failed to list issues for repo: %s, error: %v''
              [AStr repo, AErr e])) ?s2"
      by (simp add: Let_def Fatalf_def del: sprintf.simps)
    with g2 show ?thesis by (simp add: nd_LogFatal del: sprintf.simps)
  next
    case None
    let ?s3 = "Printf L ''found %d issues to migrate'' [AInt (int (length iss))] ?s2"
    have g3: "noDest s0 ?s3" using g2 by (rule nd_Printf)
    obtain r4 s4 where mi: "migrateIssues C L f repo iss ?s3 = (r4, s4)"
      by (cases "migrateIssues C L f repo iss ?s3")
    have g4: "noDest s0 s4" using Cons.prems(1) mi g3 by (rule nd_migrateIssues)
    show ?thesis
    proof (cases r4)
      case (Inl e)
      with Cons.prems(2) l None mi have "s' = s4" by (simp add: Let_def del: sprintf.simps)
      with g4 show ?thesis by simp
    next
      case (Inr u)
      with Cons.prems(2) l None mi have "migrateRepos C L f rs s4 = (r, s')"
        by (simp add: Let_def del: sprintf.simps)
      from Cons.IH [OF Cons.prems(1) this g4] show ?thesis .
    qed
  qed
qed

text \<open>
  C1. The dry-run flag is set by default, and when it is set a full run adds no call of
  \<open>Create\<close> or \<open>AddComment\<close> to the trace, whatever the repositories, issues and comments
  are and however the run ends: what it adds is standard output, source reads and the
  message of a fatal log.
\<close>

theorem dry_run_no_destination_calls:
  "dryRun init \<and>
   (dryRun f \<longrightarrow>
      (\<exists>new. trace (snd (main C L f s)) = trace s @ new \<and> (\<forall>e\<in>set new. \<not> isDestinationCall e)))"
proof -
  have "noDest s (snd (main C L f s))" if d: "dryRun f"
  proof (cases "length (repos f) < 1")
    case True
    then show ?thesis by (simp add: main_def nd_LogFatal nd_refl)
  next
    case False
    obtain r1 s1 where m: "migrateRepos C L f (repos f) s = (r1, s1)"
      by (cases "migrateRepos C L f (repos f) s")
    have "noDest s s1" using d m nd_refl by (rule nd_migrateRepos)
    with False m show ?thesis by (cases r1) (simp_all add: main_def nd_Println)
  qed
  then show ?thesis by (simp add: init_def noDest_def grows_def)
qed

theorem dry_run_no_destination_calls_witness:
  "dryRun dryFlags \<and>
   (\<exists>new. trace (snd (main demoClients plainFmt dryFlags start)) = trace start @ new \<and>
      (\<forall>e\<in>set new. \<not> isDestinationCall e)) \<and>
   fst (main demoClients plainFmt dryFlags start) = Exit 0 \<and>
   length (trace (snd (main demoClients plainFmt dryFlags start))) = 12"
  using dry_run_no_destination_calls [of dryFlags demoClients plainFmt start]
  by (simp add: run_defs demo_defs)

section \<open>Live run of one issue\<close>

lemma attaches_Cons: "attaches L p ns cms e \<Longrightarrow> attaches L p ns (cm # cms) e"
  by (auto simp: attaches_def)

lemma migrateComments_live:
  "\<not> dryRun f \<Longrightarrow> migrateComments C L f newStory cms s = (r, s') \<Longrightarrow>
     grows (attaches L (ptProjId f) newStory cms) s s'"
proof (induction cms arbitrary: s)
  case Nil
  then show ?case by (simp add: grows_refl)
next
  case (Cons cm cms)
  show ?case
  proof (cases "convertComment L cm")
    case (Inl e)
    with Cons.prems show ?thesis by (simp add: grows_refl)
  next
    case (Inr commentReq)
    show ?thesis
    proof (cases newStory)
      case None
      with Cons.prems Inr show ?thesis by (simp add: grows_refl)
    next
      case (Some story)
      obtain err w where a: "AddComment (ptSvc C) (world s) (ptProjId f) (Id story) commentReq = (err, w)"
        by (cases "AddComment (ptSvc C) (world s) (ptProjId f) (Id story) commentReq")
      let ?e = "CallAddComment (ptProjId f) (Id story) commentReq err"
      let ?s1 = "emit ?e (s\<lparr>world := w\<rparr>)"
      have e: "attaches L (ptProjId f) newStory (cm # cms) ?e"
        using Some Inr by (auto simp: attaches_def)
      have g1: "grows (attaches L (ptProjId f) newStory (cm # cms)) s ?s1"
        using e by (rule grows_emit_world)
      show ?thesis
      proof (cases err)
        case None
        with Cons.prems Inr Some a have "migrateComments C L f newStory cms ?s1 = (r, s')"
          by simp
        from Cons.IH [OF Cons.prems(1) this]
        have "grows (attaches L (ptProjId f) newStory (cm # cms)) ?s1 s'"
          by (rule grows_mono) (rule attaches_Cons)
        with g1 show ?thesis by (rule grows_trans)
      next
        case (Some e')
        with Cons.prems Inr \<open>newStory = Some story\<close> a
        have "s' = emit (LogFatal (sprintf L ''error creating comment: %v'' [AErr e'])) ?s1"
          by (simp add: Fatalf_def del: sprintf.simps)
        then have "grows (attaches L (ptProjId f) newStory (cm # cms)) ?s1 s'"
          by (simp add: grows_emit1 attaches_def del: sprintf.simps)
        with g1 show ?thesis by (rule grows_trans)
      qed
    qed
  qed
qed

lemma trace_Println_begin:
  "trace (Println ''\<newline>===== begin =====\<newline>'' s) = trace s @ [Stdout beginLine]"
  by (simp add: Println_def emit_def beginLine_def)

lemma migrateIssue_live:
  assumes l: "\<not> dryRun f" and m: "migrateIssue C L f repo is s = (r, s')"
  shows "trace s' = trace s @ [Stdout beginLine] \<or>
    (\<exists>sr ns err rest.
       convertIssue L repo is = Inr sr \<and>
       fst (Create (ptSvc C) (world s) (ptProjId f) sr) = (ns, err) \<and>
       trace s' = trace s @ [Stdout beginLine, CallCreate (ptProjId f) sr ns err] @ rest \<and>
       (rest = [] \<or> (\<exists>m. rest = [LogFatal m]) \<or>
        (err = None \<and>
         (\<exists>n cms lerr tl. rest = CallListComments (owner f) repo n 1000 cms lerr # tl \<and>
            (\<forall>e\<in>set tl. isStdout e \<or> attaches L (ptProjId f) ns cms e)))))"
proof -
  let ?s1 = "Println ''\<newline>===== begin =====\<newline>'' s"
  have t1: "trace ?s1 = trace s @ [Stdout beginLine]" by (rule trace_Println_begin)
  have w1: "world ?s1 = world s" by (simp add: Println_def emit_def)
  show ?thesis
  proof (cases "convertIssue L repo is")
    case (Inl e)
    with m have "s' = ?s1" by (simp add: migrateIssue_def Let_def)
    with t1 show ?thesis by simp
  next
    case (Inr sr)
    obtain ns err w where cr: "Create (ptSvc C) (world s) (ptProjId f) sr = ((ns, err), w)"
      by (cases "Create (ptSvc C) (world s) (ptProjId f) sr") auto
    let ?s2 = "emit (CallCreate (ptProjId f) sr ns err) (?s1\<lparr>world := w\<rparr>)"
    have t2: "trace ?s2 = trace s @ [Stdout beginLine, CallCreate (ptProjId f) sr ns err]"
      using t1 by (simp add: emit_def)
    have shape: "?thesis" if "\<exists>rest. trace s' = trace ?s2 @ rest \<and>
       (rest = [] \<or> (\<exists>m. rest = [LogFatal m]) \<or>
        (err = None \<and>
         (\<exists>n cms lerr tl. rest = CallListComments (owner f) repo n 1000 cms lerr # tl \<and>
            (\<forall>e\<in>set tl. isStdout e \<or> attaches L (ptProjId f) ns cms e))))"
    proof -
      from that obtain rest where r: "trace s' = trace ?s2 @ rest"
        "rest = [] \<or> (\<exists>m. rest = [LogFatal m]) \<or>
        (err = None \<and>
         (\<exists>n cms lerr tl. rest = CallListComments (owner f) repo n 1000 cms lerr # tl \<and>
            (\<forall>e\<in>set tl. isStdout e \<or> attaches L (ptProjId f) ns cms e)))" by blast
      have "convertIssue L repo is = Inr sr \<and>
       fst (Create (ptSvc C) (world s) (ptProjId f) sr) = (ns, err) \<and>
       trace s' = trace s @ [Stdout beginLine, CallCreate (ptProjId f) sr ns err] @ rest"
        using Inr cr r(1) t2 by simp
      with r(2) show ?thesis by blast
    qed
    show ?thesis
    proof (cases err)
      case (Some e)
      with m l Inr cr w1
      have "s' = emit (LogFatal (sprintf L ''error creating story: %v'' [AErr e])) ?s2"
        by (simp add: migrateIssue_def Let_def Fatalf_def del: sprintf.simps)
      then have "trace s' = trace ?s2 @ [LogFatal (sprintf L ''error creating story: %v'' [AErr e])]"
        by (simp add: emit_def del: sprintf.simps)
      then show ?thesis by (intro shape) blast
    next
      case None
      show ?thesis
      proof (cases "Number is")
        case nn: None
        with m l Inr cr w1 None have "s' = ?s2"
          by (simp add: migrateIssue_def Let_def del: sprintf.simps)
        then show ?thesis by (intro shape) simp
      next
        case (Some number)
        have w2: "world ?s2 = w" by (simp add: emit_def)
        obtain cms lerr w' where lc:
          "ListComments (ghSvc C) w (owner f) repo number 1000 = ((cms, lerr), w')"
          by (cases "ListComments (ghSvc C) w (owner f) repo number 1000") auto
        let ?ev = "CallListComments (owner f) repo number 1000 cms lerr"
        let ?s3 = "emit ?ev (?s2\<lparr>world := w'\<rparr>)"
        have t3: "trace ?s3 = trace ?s2 @ [?ev]" by (simp add: emit_def)
        show ?thesis
        proof (cases lerr)
          case e: (Some e)
          let ?msg = "sprintf L ''failed to list gh comments for repo: %s, issue %d: error: %v''
                  [AStr repo, AInt number, AErr e]"
          from m l Inr cr w1 None Some lc e w2
          have "s' = emit (LogFatal ?msg) ?s3"
            by (simp add: migrateIssue_def Let_def Fatalf_def del: sprintf.simps)
          then have "trace s' = trace ?s2 @ (?ev # [LogFatal ?msg])"
            using t3 by (simp add: emit_def del: sprintf.simps)
          moreover have "\<forall>e\<in>set [LogFatal ?msg]. isStdout e \<or> attaches L (ptProjId f) ns cms e"
            by (simp add: attaches_def del: sprintf.simps)
          ultimately show ?thesis using None by (intro shape) blast
        next
          case ok: None
          let ?p = "Stdout (sprintf L ''found %d comments for issue number: %d''
                          [AInt (int (length cms)), AInt number])"
          let ?s4 = "Printf L ''found %d comments for issue number: %d''
                          [AInt (int (length cms)), AInt number] ?s3"
          have t4: "trace ?s4 = trace ?s2 @ [?ev, ?p]"
            using t3 by (simp add: Printf_def emit_def del: sprintf.simps)
          obtain r5 s5 where mc: "migrateComments C L f ns cms ?s4 = (r5, s5)"
            by (cases "migrateComments C L f ns cms ?s4")
          from migrateComments_live [OF l mc] obtain new
            where n: "trace s5 = trace ?s4 @ new" "\<forall>e\<in>set new. attaches L (ptProjId f) ns cms e"
            unfolding grows_def by blast
          from m l Inr cr w1 None Some lc ok w2 mc
          have "s' = s5 \<or> s' = Println ''\<newline>===== end =====\<newline>'' s5"
            by (cases r5) (simp_all add: migrateIssue_def Let_def del: sprintf.simps)
          then obtain fin where f: "trace s' = trace s5 @ fin" "\<forall>e\<in>set fin. isStdout e"
            by (auto simp: Println_def emit_def)
          have "trace s' = trace ?s2 @ (?ev # (?p # new @ fin))" using f(1) n(1) t4 by simp
          moreover have "\<forall>e\<in>set (?p # new @ fin). isStdout e \<or> attaches L (ptProjId f) ns cms e"
            using n(2) f(2) by (auto simp del: sprintf.simps)
          ultimately show ?thesis using None by (intro shape) blast
        qed
      qed
    qed
  qed
qed

text \<open>
  C3. In live mode the per-issue step adds to the trace its first printed line and then
  either nothing (the conversion panicked) or the \<open>Create\<close> call for the conversion of this
  issue, recorded with the answer the service gave, followed by events among which there is no
  second \<open>Create\<close> and every \<open>AddComment\<close> goes to the configured project and to the
  story that this \<open>Create\<close> returned. So no comment is attached before the story exists.
\<close>

theorem story_created_before_comments:
  assumes "\<not> dryRun f"
  shows "\<exists>post. trace (snd (migrateIssue C L f repo is s)) = trace s @ [Stdout beginLine] @ post \<and>
     (post = [] \<or>
      (\<exists>sr ns err rest.
         post = CallCreate (ptProjId f) sr ns err # rest \<and>
         convertIssue L repo is = Inr sr \<and>
         fst (Create (ptSvc C) (world s) (ptProjId f) sr) = (ns, err) \<and>
         (\<forall>e\<in>set rest. attachedTo (ptProjId f) ns err e)))"
proof -
  obtain r s' where m: "migrateIssue C L f repo is s = (r, s')"
    by (cases "migrateIssue C L f repo is s")
  from migrateIssue_live [OF assms m]
  consider (a) "trace s' = trace s @ [Stdout beginLine]"
    | (b) sr ns err rest where "convertIssue L repo is = Inr sr"
        "fst (Create (ptSvc C) (world s) (ptProjId f) sr) = (ns, err)"
        "trace s' = trace s @ [Stdout beginLine, CallCreate (ptProjId f) sr ns err] @ rest"
        "rest = [] \<or> (\<exists>m. rest = [LogFatal m]) \<or>
          (err = None \<and>
           (\<exists>n cms lerr tl. rest = CallListComments (owner f) repo n 1000 cms lerr # tl \<and>
            (\<forall>e\<in>set tl. isStdout e \<or> attaches L (ptProjId f) ns cms e)))"
    by blast
  then show ?thesis
  proof cases
    case a
    with m show ?thesis by simp
  next
    case b
    have att: "attachedTo (ptProjId f) ns None e" if "isStdout e \<or> attaches L (ptProjId f) ns cms e" for e cms
      using that by (cases e) (auto simp: attaches_def)
    have "attachedTo (ptProjId f) ns err e" if e: "e \<in> set rest" for e
      using b(4)
    proof (elim disjE conjE exE)
      assume "rest = []"
      with e show ?thesis by simp
    next
      fix m assume "rest = [LogFatal m]"
      with e show ?thesis by simp
    next
      fix n cms lerr tl
      assume none: "err = None"
        and rest: "rest = CallListComments (owner f) repo n 1000 cms lerr # tl"
        and tl: "\<forall>e\<in>set tl. isStdout e \<or> attaches L (ptProjId f) ns cms e"
      from e rest have "e = CallListComments (owner f) repo n 1000 cms lerr \<or> e \<in> set tl"
        by simp
      then show ?thesis
      proof
        assume "e = CallListComments (owner f) repo n 1000 cms lerr"
        then show ?thesis by simp
      next
        assume "e \<in> set tl"
        with tl have "isStdout e \<or> attaches L (ptProjId f) ns cms e" by blast
        then show ?thesis unfolding none by (rule att)
      qed
    qed
    then have "\<forall>e\<in>set rest. attachedTo (ptProjId f) ns err e" by blast
    with b(1,2,3) m show ?thesis by simp
  qed
qed

theorem story_created_before_comments_witness:
  "\<not> dryRun liveFlags \<and>
   (\<exists>post. trace (snd (migrateIssue demoClients plainFmt liveFlags ''widgets'' issue42 start)) =
        trace start @ [Stdout beginLine] @ post \<and>
     (post = [] \<or>
      (\<exists>sr ns err rest.
         post = CallCreate (ptProjId liveFlags) sr ns err # rest \<and>
         convertIssue plainFmt ''widgets'' issue42 = Inr sr \<and>
         fst (Create (ptSvc demoClients) (world start) (ptProjId liveFlags) sr) = (ns, err) \<and>
         (\<forall>e\<in>set rest. attachedTo (ptProjId liveFlags) ns err e)))) \<and>
   filter isDestinationCall
     (trace (snd (migrateIssue demoClients plainFmt liveFlags ''widgets'' issue42 start))) =
     [CallCreate 99 story42 (Some \<lparr>Id = 7\<rparr>) None,
      CallAddComment 99 7
        \<lparr>Text = ''https://github.com/acme/widgets/issues/42#c1\<newline>```\<newline>Migrated from Github\<newline>Created: 2015-06-02 11:00:00 +0000 UTC\<newline>Author: alice\<newline>```\<newline>\<newline>confirmed''\<rparr>
        None]"
proof -
  have l: "\<not> dryRun liveFlags" by (simp add: demo_defs)
  have "filter isDestinationCall
     (trace (snd (migrateIssue demoClients plainFmt liveFlags ''widgets'' issue42 start))) =
     [CallCreate 99 story42 (Some \<lparr>Id = 7\<rparr>) None,
      CallAddComment 99 7
        \<lparr>Text = ''https://github.com/acme/widgets/issues/42#c1\<newline>```\<newline>Migrated from Github\<newline>Created: 2015-06-02 11:00:00 +0000 UTC\<newline>Author: alice\<newline>```\<newline>\<newline>confirmed''\<rparr>
        None]"
    by (simp add: run_defs demo_defs story42_def)
  with l story_created_before_comments [OF l, of demoClients plainFmt "''widgets''" issue42 start]
  show ?thesis by blast
qed

lemma convertIssue_full_body:
  "convertIssue L repo is = Inr sr \<Longrightarrow> \<exists>b prov. github_Issue.Body is = Some b \<and> Description sr = prov @ b"
  by (auto simp: convertIssue_def Let_def split: option.splits simp del: sprintf.simps)

lemma convertComment_full_body:
  "convertComment L cm = Inr c \<Longrightarrow> \<exists>b prov. github_IssueComment.Body cm = Some b \<and> Text c = prov @ b"
  by (auto simp: convertComment_def Let_def split: option.splits simp del: sprintf.simps)

text \<open>
  C7. In live mode the request passed to \<open>Create\<close> is the one \<open>convertIssue\<close> returned,
  whose description ends with the whole issue body, and the comment passed to
  \<open>AddComment\<close> is the one \<open>convertComment\<close> returned for one of the comments just
  fetched, whose text ends with the whole comment body: \<open>trunc\<close> is applied in
  \<open>printStory\<close>, \<open>printIssueComment\<close> and \<open>printStoryComment\<close> only.
\<close>

theorem destination_gets_untruncated_text:
  assumes "\<not> dryRun f" and "trace (snd (migrateIssue C L f repo is s)) = trace s @ new"
  shows "(\<forall>p sr ns err. CallCreate p sr ns err \<in> set new \<longrightarrow>
            convertIssue L repo is = Inr sr \<and>
            (\<exists>b prov. github_Issue.Body is = Some b \<and> Description sr = prov @ b)) \<and>
         (\<forall>p sid c err. CallAddComment p sid c err \<in> set new \<longrightarrow>
            (\<exists>n cms lerr cm. CallListComments (owner f) repo n 1000 cms lerr \<in> set new \<and>
               cm \<in> set cms \<and> convertComment L cm = Inr c \<and>
               (\<exists>b prov. github_IssueComment.Body cm = Some b \<and> Text c = prov @ b)))"
proof -
  obtain r s' where m: "migrateIssue C L f repo is s = (r, s')"
    by (cases "migrateIssue C L f repo is s")
  from migrateIssue_live [OF assms(1) m]
  consider (a) "trace s' = trace s @ [Stdout beginLine]"
    | (b) sr ns err rest where "convertIssue L repo is = Inr sr"
        "fst (Create (ptSvc C) (world s) (ptProjId f) sr) = (ns, err)"
        "trace s' = trace s @ [Stdout beginLine, CallCreate (ptProjId f) sr ns err] @ rest"
        "rest = [] \<or> (\<exists>m. rest = [LogFatal m]) \<or>
          (err = None \<and>
           (\<exists>n cms lerr tl. rest = CallListComments (owner f) repo n 1000 cms lerr # tl \<and>
            (\<forall>e\<in>set tl. isStdout e \<or> attaches L (ptProjId f) ns cms e)))"
    by blast
  then show ?thesis
  proof cases
    case a
    with m assms(2) have "new = [Stdout beginLine]" by simp
    then show ?thesis by simp
  next
    case b
    from b(3) m assms(2) have new: "new = [Stdout beginLine, CallCreate (ptProjId f) sr ns err] @ rest"
      by simp
    have noCreate: "CallCreate p sr' ns' err' \<notin> set rest" for p sr' ns' err'
    proof
      assume c: "CallCreate p sr' ns' err' \<in> set rest"
      with b(4) obtain n cms lerr tl
        where rest: "rest = CallListComments (owner f) repo n 1000 cms lerr # tl"
          and tl: "\<forall>e\<in>set tl. isStdout e \<or> attaches L (ptProjId f) ns cms e"
        by auto
      from c rest have "CallCreate p sr' ns' err' \<in> set tl" by simp
      from bspec [OF tl this] show False by (simp add: attaches_def)
    qed
    have cr: "\<forall>p sr' ns' err'. CallCreate p sr' ns' err' \<in> set new \<longrightarrow>
            convertIssue L repo is = Inr sr' \<and>
            (\<exists>b prov. github_Issue.Body is = Some b \<and> Description sr' = prov @ b)"
      using new noCreate b(1) convertIssue_full_body [OF b(1)] by auto
    have ac: "\<exists>n cms lerr cm. CallListComments (owner f) repo n 1000 cms lerr \<in> set new \<and>
               cm \<in> set cms \<and> convertComment L cm = Inr c \<and>
               (\<exists>b prov. github_IssueComment.Body cm = Some b \<and> Text c = prov @ b)"
      if "CallAddComment p sid c aerr \<in> set new" for p sid c aerr
    proof -
      from that new have inrest: "CallAddComment p sid c aerr \<in> set rest" by simp
      with b(4) obtain n cms lerr tl
        where rest: "rest = CallListComments (owner f) repo n 1000 cms lerr # tl"
          and tl: "\<forall>e\<in>set tl. isStdout e \<or> attaches L (ptProjId f) ns cms e"
        by auto
      from inrest rest have "CallAddComment p sid c aerr \<in> set tl" by simp
      with tl have "attaches L (ptProjId f) ns cms (CallAddComment p sid c aerr)" by fastforce
      then obtain cm where cm: "cm \<in> set cms" "convertComment L cm = Inr c"
        by (auto simp: attaches_def)
      have "CallListComments (owner f) repo n 1000 cms lerr \<in> set new"
        using rest new by simp
      with convertComment_full_body [OF cm(2)] cm show ?thesis by blast
    qed
    from cr ac show ?thesis by blast
  qed
qed

theorem destination_gets_untruncated_text_witness:
  "\<not> dryRun liveFlags \<and>
   (\<exists>sr ns err.
      CallCreate 99 sr ns err \<in>
        set (trace (snd (migrateIssue demoClients plainFmt liveFlags ''widgets'' longIssue start))) \<and>
      length (Description sr) = 423 \<and>
      convertIssue plainFmt ''widgets'' longIssue = Inr sr \<and>
      (\<exists>b prov. github_Issue.Body longIssue = Some b \<and> Description sr = prov @ b)) \<and>
   (\<exists>sid c err.
      CallAddComment 99 sid c err \<in>
        set (trace (snd (migrateIssue demoClients plainFmt liveFlags ''widgets'' longIssue start))) \<and>
      (\<exists>n cms lerr cm.
         CallListComments (owner liveFlags) ''widgets'' n 1000 cms lerr \<in>
           set (trace (snd (migrateIssue demoClients plainFmt liveFlags ''widgets'' longIssue start))) \<and>
         cm \<in> set cms \<and> convertComment plainFmt cm = Inr c \<and>
         (\<exists>b prov. github_IssueComment.Body cm = Some b \<and> Text c = prov @ b)))"
proof -
  let ?T = "trace (snd (migrateIssue demoClients plainFmt liveFlags ''widgets'' longIssue start))"
  have l: "\<not> dryRun liveFlags" by (simp add: demo_defs)
  have t: "?T = trace start @ ?T" by (simp add: start_def)
  note th = destination_gets_untruncated_text [OF l t]
  have "\<exists>sr ns err. CallCreate 99 sr ns err \<in> set ?T \<and> length (Description sr) = 423"
    by (simp add: run_defs demo_defs longIssue_def)
  then obtain sr ns err where c: "CallCreate 99 sr ns err \<in> set ?T" "length (Description sr) = 423"
    by blast
  from th c(1) have c': "convertIssue plainFmt ''widgets'' longIssue = Inr sr \<and>
      (\<exists>b prov. github_Issue.Body longIssue = Some b \<and> Description sr = prov @ b)"
    by blast
  have "\<exists>sid cm err. CallAddComment 99 sid cm err \<in> set ?T"
    by (simp add: run_defs demo_defs longIssue_def)
  then obtain sid cm aerr where a: "CallAddComment 99 sid cm aerr \<in> set ?T" by blast
  from th a have a': "\<exists>n cms lerr cm'.
         CallListComments (owner liveFlags) ''widgets'' n 1000 cms lerr \<in> set ?T \<and>
         cm' \<in> set cms \<and> convertComment plainFmt cm' = Inr cm \<and>
         (\<exists>b prov. github_IssueComment.Body cm' = Some b \<and> Text cm = prov @ b)"
    by blast
  from l c c' a a' show ?thesis by blast
qed

section \<open>Fatal errors of the run\<close>

text \<open>
  C8. With an empty repository list the run ends with exit status 1 after one fatal log and
  nothing else: no call to either service, and the world is as it was, whatever the other
  flags are.
\<close>

theorem empty_repos_fatal:
  "repos f = [] \<Longrightarrow>
     main C L f s = (Exit 1, s\<lparr>trace := trace s @ [LogFatal ''no github repos specified'']\<rparr>)"
  by (simp add: main_def emit_def)

theorem empty_repos_fatal_witness:
  "repos init = [] \<and>
   main demoClients plainFmt init start =
     (Exit 1, \<lparr>world = 0, trace = [LogFatal ''no github repos specified'']\<rparr>)"
  using empty_repos_fatal [of init demoClients plainFmt start]
  by (simp add: init_def start_def)

lemma migrateRepos_append:
  "migrateRepos C L f (pre @ post) s =
     (case migrateRepos C L f pre s of
        (Inl e, s') \<Rightarrow> (Inl e, s')
      | (Inr u, s') \<Rightarrow> migrateRepos C L f post s')"
proof (induction pre arbitrary: s)
  case Nil
  then show ?case by simp
next
  case (Cons repo pre)
  show ?case
    by (simp add: Cons.IH Let_def Fatalf_def split: prod.splits option.splits sum.splits del: sprintf.simps)
qed

text \<open>
  C9. If the repositories before \<open>repo\<close> were migrated without stopping and listing the
  open issues of \<open>repo\<close> fails, the run ends with exit status 1, and after the failing call
  the trace holds the fatal log and nothing more: no issue of \<open>repo\<close> is migrated and the
  repositories after it are not touched.
\<close>

theorem list_failure_aborts:
  assumes "repos f = pre @ repo # post"
    and "migrateRepos C L f pre s = (Inr (), s1)"
    and "fst (ListByRepo (ghSvc C) (world s1) (owner f) repo ''open'' (limit f)) = (iss, Some e)"
  shows "fst (main C L f s) = Exit 1 \<and>
         trace (snd (main C L f s)) =
           trace s1 @
           [Stdout (''Analysing repo: '' @ owner f @ ''/'' @ repo @ ''\<newline>''),
            CallListByRepo (owner f) repo ''open'' (limit f) iss (Some e),
            LogFatal (sprintf L ''failed to list issues for repo: %s, error: %v'' [AStr repo, AErr e])]"
proof -
  obtain w where l: "ListByRepo (ghSvc C) (world s1) (owner f) repo ''open'' (limit f) = ((iss, Some e), w)"
    using assms(3) by (cases "ListByRepo (ghSvc C) (world s1) (owner f) repo ''open'' (limit f)") auto
  have p: "sprintf L ''Analysing repo: %s/%s\<newline>'' [AStr (owner f), AStr repo] =
        ''Analysing repo: '' @ owner f @ ''/'' @ repo @ ''\<newline>''"
    by (simp add: extraArgs_def)
  have "migrateRepos C L f (repo # post) s1 =
     (Inl (Exit 1),
      emit (LogFatal (sprintf L ''failed to list issues for repo: %s, error: %v'' [AStr repo, AErr e]))
        (emit (CallListByRepo (owner f) repo ''open'' (limit f) iss (Some e))
           ((Printf L ''Analysing repo: %s/%s\<newline>'' [AStr (owner f), AStr repo] s1)\<lparr>world := w\<rparr>)))"
    using l by (simp add: Let_def Fatalf_def Printf_def emit_def del: sprintf.simps)
  then have "migrateRepos C L f (repos f) s =
     (Inl (Exit 1),
      emit (LogFatal (sprintf L ''failed to list issues for repo: %s, error: %v'' [AStr repo, AErr e]))
        (emit (CallListByRepo (owner f) repo ''open'' (limit f) iss (Some e))
           ((Printf L ''Analysing repo: %s/%s\<newline>'' [AStr (owner f), AStr repo] s1)\<lparr>world := w\<rparr>)))"
    using assms(1,2) by (simp add: migrateRepos_append del: sprintf.simps migrateRepos.simps)
  then show ?thesis using assms(1) p
    by (simp add: main_def Printf_def emit_def del: sprintf.simps)
qed

theorem list_failure_aborts_witness:
  "fst (main demoClients plainFmt brokenFlags start) = Exit 1 \<and>
   trace (snd (main demoClients plainFmt brokenFlags start)) =
     trace (snd (migrateRepos demoClients plainFmt brokenFlags [''widgets''] start)) @
     [Stdout ''Analysing repo: acme/broken\<newline>'',
      CallListByRepo ''acme'' ''broken'' ''open'' 1000 [] (Some (Error ''boom'')),
      LogFatal ''failed to list issues for repo: broken, error: boom'']"
proof -
  let ?s1 = "snd (migrateRepos demoClients plainFmt brokenFlags [''widgets''] start)"
  have a: "repos brokenFlags = [''widgets''] @ ''broken'' # [''other'']"
    by (simp add: brokenFlags_def)
  have b: "migrateRepos demoClients plainFmt brokenFlags [''widgets''] start = (Inr (), ?s1)"
    by (simp add: run_defs demo_defs brokenFlags_def)
  have c: "fst (ListByRepo (ghSvc demoClients) (world ?s1) (owner brokenFlags) ''broken'' ''open''
              (limit brokenFlags)) = ([], Some (Error ''boom''))"
    by (simp add: demoClients_def demoGh_def)
  from list_failure_aborts [OF a b c]
  show ?thesis by (simp add: brokenFlags_def dryFlags_def init_def plainFmt_def extraArgs_def)
qed

end
